theory Spec2Isabelle
  imports Complex_Main "HOL-Library.Char_ord" "HOL-Library.List_Lexorder"
begin

section \<open>Numbers, errors and rounding\<close>

text \<open>
  The module \<^verbatim>\<open>elo_calculator.py\<close> computes with Python integers and Python floats.
  Integers are modelled as \<open>int\<close>. Floats are modelled as \<open>real\<close>: the formulas are taken
  as written, over the exact real numbers, so the binary rounding of a float operation and
  the overflow of \<^verbatim>\<open>10 ** x\<close> for a huge exponent are outside the model. Everything that
  Python raises on the exact values (a division by zero, an index out of range) is a value
  of the error type. Where a property is decided by the last bit of a sum of returned
  values, the doubles themselves are modelled (section Doubles).
\<close>

datatype py_error = ZeroDivisionError | IndexError

text \<open>
  \<^verbatim>\<open>round(x)\<close> of Python 3: the nearest integer, a tie going to the even neighbour.
\<close>

definition py_round :: "real \<Rightarrow> int" where
  "py_round x =
     (let f = \<lfloor>x\<rfloor>; d = x - of_int f
      in if d < 1 / 2 then f
         else if 1 / 2 < d then f + 1
         else if even f then f else f + 1)"

text \<open>\<^verbatim>\<open>round(x, n)\<close>: the same rounding at the n-th decimal.\<close>

definition py_round_nd :: "real \<Rightarrow> nat \<Rightarrow> real" where
  "py_round_nd x n = of_int (py_round (x * 10 ^ n)) / 10 ^ n"

section \<open>Venue adjustment\<close>

definition HOME_ADVANTAGE_MULTIPLIER :: real where
  "HOME_ADVANTAGE_MULTIPLIER = 1.11"

definition AWAY_DISADVANTAGE_MULTIPLIER :: real where
  "AWAY_DISADVANTAGE_MULTIPLIER = 0.89"

definition DRAW_HOME_MULTIPLIER :: real where
  "DRAW_HOME_MULTIPLIER = 0.95"

definition DRAW_AWAY_MULTIPLIER :: real where
  "DRAW_AWAY_MULTIPLIER = 1.05"

definition adjust_probability_for_venue :: "real \<Rightarrow> bool \<Rightarrow> string \<Rightarrow> real" where
  "adjust_probability_for_venue base_prob is_stronger_team_home market =
     (if market = ''stronger_win'' then
        (if is_stronger_team_home then base_prob * HOME_ADVANTAGE_MULTIPLIER
         else base_prob * AWAY_DISADVANTAGE_MULTIPLIER)
      else if market = ''weaker_win'' then
        (if is_stronger_team_home then base_prob * AWAY_DISADVANTAGE_MULTIPLIER
         else base_prob * HOME_ADVANTAGE_MULTIPLIER)
      else if market = ''draw'' then
        (if is_stronger_team_home then base_prob * DRAW_HOME_MULTIPLIER
         else base_prob * DRAW_AWAY_MULTIPLIER)
      else base_prob)"

text \<open>
  One dictionary of \<^verbatim>\<open>elo_bands.json\<close>, with the four keys the functions read.
\<close>

record elo_band =
  band :: int
  stronger_win_pct :: real
  draw_pct :: real
  weaker_win_pct :: real

text \<open>The dictionary \<^verbatim>\<open>{'home_win': .., 'draw': .., 'away_win': ..}\<close>.\<close>

record probs =
  home_win :: real
  draw :: real
  away_win :: real

text \<open>\<^verbatim>\<open>min(int(elo_diff // 50) + 1, 10)\<close> for \<^verbatim>\<open>elo_diff = abs(home_elo - away_elo)\<close>.\<close>

definition band_num_of :: "int \<Rightarrow> int \<Rightarrow> int" where
  "band_num_of home_elo away_elo = min (\<bar>home_elo - away_elo\<bar> div 50 + 1) 10"

text \<open>
  The loop \<^verbatim>\<open>for band in elo_bands: if band['band'] == band_num: ...; break\<close> is
  \<open>find\<close>: the first entry with that number, or \<open>None\<close>.
\<close>

definition get_venue_adjusted_probabilities ::
    "int \<Rightarrow> int \<Rightarrow> elo_band list \<Rightarrow> py_error + probs" where
  "get_venue_adjusted_probabilities home_elo away_elo elo_bands =
     (let band_num = band_num_of home_elo away_elo
      in case find (\<lambda>b. band b = band_num) elo_bands of
           None \<Rightarrow> Inr \<lparr>home_win = 0.333, draw = 0.333, away_win = 0.334\<rparr>
         | Some band_data \<Rightarrow>
             (let is_stronger_home = (away_elo \<le> home_elo);
                  stronger_adj = adjust_probability_for_venue
                                   (stronger_win_pct band_data) is_stronger_home ''stronger_win'';
                  weaker_adj = adjust_probability_for_venue
                                   (weaker_win_pct band_data) is_stronger_home ''weaker_win'';
                  draw_adj = adjust_probability_for_venue
                                   (draw_pct band_data) is_stronger_home ''draw'';
                  total = stronger_adj + weaker_adj + draw_adj
              in if total = 0 then Inl ZeroDivisionError
                 else if is_stronger_home then
                   Inr \<lparr>home_win = py_round_nd (stronger_adj / total) 4,
                        draw = py_round_nd (draw_adj / total) 4,
                        away_win = py_round_nd (weaker_adj / total) 4\<rparr>
                 else
                   Inr \<lparr>home_win = py_round_nd (weaker_adj / total) 4,
                        draw = py_round_nd (draw_adj / total) 4,
                        away_win = py_round_nd (stronger_adj / total) 4\<rparr>))"

section \<open>The rating engine\<close>

text \<open>One entry \<^verbatim>\<open>{'date': .., 'elo': ..}\<close> of a team's rating history.\<close>

record history_entry =
  date :: string
  elo :: int

subsection \<open>Form metrics\<close>

text \<open>The dictionary returned by \<^verbatim>\<open>calculate_form_metrics\<close>.\<close>

record form_metrics =
  elo_change_last_5 :: int
  elo_change_last_10 :: int
  trend :: string
  form_rating :: real

text \<open>
  The loop \<^verbatim>\<open>for i in range(len(sorted_history) - 1, max(len(sorted_history) - num_matches - 1, 0), -1)\<close>
  visits \<open>n - 1, n - 2, \<dots>, stop + 1\<close> and appends the change from entry \<open>i - 1\<close> to entry
  \<open>i\<close> when \<open>i > 0\<close>.
\<close>

definition recent_changes_of :: "history_entry list \<Rightarrow> int \<Rightarrow> int list" where
  "recent_changes_of sorted_history num_matches =
     (let n = length sorted_history;
          stop = max (int n - num_matches - 1) 0
      in map (\<lambda>i. elo (sorted_history ! i) - elo (sorted_history ! (i - 1)))
           (filter (\<lambda>i. 0 < i) (rev [nat stop + 1 ..< n])))"

text \<open>
  \<^verbatim>\<open>sorted(.., key=lambda x: x['date'])\<close> is the stable sort by the date string, compared
  as Python compares strings: lexicographically, character by character.
\<close>

definition calculate_form_metrics ::
    "string \<Rightarrow> (string \<rightharpoonup> history_entry list) \<Rightarrow> int \<Rightarrow> form_metrics" where
  "calculate_form_metrics team elo_history num_matches =
     (case elo_history team of
        None \<Rightarrow> \<lparr>elo_change_last_5 = 0, elo_change_last_10 = 0,
                 trend = ''stable'', form_rating = 5.0\<rparr>
      | Some history \<Rightarrow>
          if length history < 2 then
            \<lparr>elo_change_last_5 = 0, elo_change_last_10 = 0,
             trend = ''stable'', form_rating = 5.0\<rparr>
          else
            (let sorted_history = sort_key date history;
                 recent_changes = recent_changes_of sorted_history num_matches;
                 elo_change_5 = (if 5 \<le> length recent_changes
                                 then sum_list (take 5 recent_changes)
                                 else sum_list recent_changes);
                 elo_change_10 = (if 10 \<le> length recent_changes
                                  then sum_list (take 10 recent_changes)
                                  else sum_list recent_changes);
                 trend = (if 15 < elo_change_5 then ''improving''
                          else if elo_change_5 < - 15 then ''declining''
                          else ''stable'');
                 base_form = 5 + real_of_int elo_change_5 / 10;
                 momentum = (if elo_change_10 \<noteq> 0
                             then (real_of_int elo_change_5 - real_of_int elo_change_10 / 2) / 10
                             else 0);
                 form_rating = min 10 (max 0 (base_form * 0.6 + (5 + momentum) * 0.4))
             in \<lparr>elo_change_last_5 = py_round (real_of_int elo_change_5),
                 elo_change_last_10 = py_round (real_of_int elo_change_10),
                 trend = trend,
                 form_rating = py_round_nd form_rating 1\<rparr>))"

subsection \<open>The calculator\<close>

text \<open>
  The class \<^verbatim>\<open>ELOCalculator\<close>: its four parameters and its two dictionaries.
\<close>

record ELOCalculator =
  k_factor :: int
  home_advantage :: int
  use_mov :: bool
  default_elo :: int
  current_elo :: "string \<rightharpoonup> int"
  elo_history :: "string \<rightharpoonup> history_entry list"

definition ELOCalculator_init :: "int \<Rightarrow> int \<Rightarrow> bool \<Rightarrow> int \<Rightarrow> ELOCalculator" where
  "ELOCalculator_init k ha mov d =
     \<lparr>k_factor = k, home_advantage = ha, use_mov = mov, default_elo = d,
      current_elo = Map.empty, elo_history = Map.empty\<rparr>"

text \<open>The constructor with every argument at its default.\<close>

definition ELOCalculator_default :: ELOCalculator where
  "ELOCalculator_default = ELOCalculator_init 20 100 True 1500"

definition expected_score :: "ELOCalculator \<Rightarrow> real \<Rightarrow> real \<Rightarrow> bool \<Rightarrow> real" where
  "expected_score self team_elo opponent_elo is_home =
     (let effective_elo = team_elo + (if is_home then of_int (home_advantage self) else 0);
          opponent_effective =
            opponent_elo + (if \<not> is_home then of_int (home_advantage self) else 0)
      in 1 / (1 + 10 powr ((opponent_effective - effective_elo) / 400)))"

text \<open>
  The multiplier divides by \<^verbatim>\<open>(elo_diff * 0.001) + 2.2\<close>; Python raises
  \<^verbatim>\<open>ZeroDivisionError\<close> when that is zero.
\<close>

definition margin_of_victory_multiplier :: "int \<Rightarrow> real \<Rightarrow> py_error + real" where
  "margin_of_victory_multiplier goal_diff elo_diff =
     (if goal_diff = 0 then Inr 1.0
      else
        (let goal_factor = ln (real_of_int (\<bar>goal_diff\<bar> + 1));
             denominator = (elo_diff * 0.001) + 2.2
         in if denominator = 0 then Inl ZeroDivisionError
            else Inr (goal_factor * (2.2 / denominator))))"

definition calculate_elo_change ::
    "ELOCalculator \<Rightarrow> real \<Rightarrow> real \<Rightarrow> int \<Rightarrow> int \<Rightarrow> bool \<Rightarrow> py_error + real" where
  "calculate_elo_change self team_elo opponent_elo team_goals opponent_goals is_home =
     (let actual_score = (if opponent_goals < team_goals then 1.0
                          else if team_goals < opponent_goals then 0.0
                          else 0.5);
          expected = expected_score self team_elo opponent_elo is_home;
          k = real_of_int (k_factor self)
      in if use_mov self \<and> team_goals \<noteq> opponent_goals then
           (let goal_diff = \<bar>team_goals - opponent_goals\<bar>;
                elo_diff = (if opponent_goals < team_goals then team_elo - opponent_elo
                            else opponent_elo - team_elo)
            in case margin_of_victory_multiplier goal_diff elo_diff of
                 Inl e \<Rightarrow> Inl e
               | Inr mov_mult \<Rightarrow> Inr ((k * mov_mult) * (actual_score - expected)))
         else Inr (k * (actual_score - expected)))"

text \<open>\<^verbatim>\<open>self.current_elo.get(team, self.default_elo)\<close>.\<close>

definition get_current_elo :: "ELOCalculator \<Rightarrow> string \<Rightarrow> int" where
  "get_current_elo self team =
     (case current_elo self team of None \<Rightarrow> default_elo self | Some r \<Rightarrow> r)"

text \<open>
  \<^verbatim>\<open>self.elo_history[team].append(entry)\<close>, the list of a team without one being created
  empty first.
\<close>

definition append_history ::
    "(string \<rightharpoonup> history_entry list) \<Rightarrow> string \<Rightarrow> history_entry
       \<Rightarrow> (string \<rightharpoonup> history_entry list)" where
  "append_history h team e = h(team \<mapsto> (case h team of None \<Rightarrow> [] | Some es \<Rightarrow> es) @ [e])"

text \<open>
  \<^verbatim>\<open>process_match\<close> mutates the calculator; the model returns the new calculator beside
  the tuple. An exception leaves before any assignment, so the error has no new state.
\<close>

definition process_match ::
    "ELOCalculator \<Rightarrow> string \<Rightarrow> string \<Rightarrow> int \<Rightarrow> int \<Rightarrow> string \<Rightarrow> bool
       \<Rightarrow> py_error + (ELOCalculator \<times> (int \<times> int \<times> real \<times> real))" where
  "process_match self home_team away_team home_goals away_goals match_date update_history =
     (let home_elo = get_current_elo self home_team;
          away_elo = get_current_elo self away_team
      in case calculate_elo_change self (real_of_int home_elo) (real_of_int away_elo)
                home_goals away_goals True of
           Inl e \<Rightarrow> Inl e
         | Inr home_change \<Rightarrow>
             (case calculate_elo_change self (real_of_int away_elo) (real_of_int home_elo)
                     away_goals home_goals False of
                Inl e \<Rightarrow> Inl e
              | Inr away_change \<Rightarrow>
                  (let new_home_elo = py_round (real_of_int home_elo + home_change);
                       new_away_elo = py_round (real_of_int away_elo + away_change);
                       elo' = (current_elo self)(home_team \<mapsto> new_home_elo,
                                                 away_team \<mapsto> new_away_elo);
                       history' =
                         (if update_history then
                            append_history
                              (append_history (elo_history self) home_team
                                 \<lparr>date = match_date, elo = new_home_elo\<rparr>)
                              away_team \<lparr>date = match_date, elo = new_away_elo\<rparr>
                          else elo_history self)
                   in Inr (self\<lparr>current_elo := elo', elo_history := history'\<rparr>,
                           (new_home_elo, new_away_elo,
                            py_round_nd home_change 1, py_round_nd away_change 1)))))"

section \<open>Fair odds\<close>

text \<open>The operator \<^verbatim>\<open>/\<close>, which raises on a zero divisor.\<close>

definition py_div :: "real \<Rightarrow> real \<Rightarrow> py_error + real" where
  "py_div a b = (if b = 0 then Inl ZeroDivisionError else Inr (a / b))"

record market_odds =
  probability :: real
  fair_odds :: real

record fair_odds_markets =
  odds_home_win :: market_odds
  odds_draw :: market_odds
  odds_away_win :: market_odds

record odds_meta =
  meta_elo_diff :: int
  meta_band :: int
  meta_stronger_team :: string
  meta_home_elo :: int
  meta_away_elo :: int

record fair_odds_result = fair_odds_markets +
  meta :: odds_meta


text \<open>
  The second definition looks the band up itself, falls back to \<^verbatim>\<open>elo_bands[0]\<close> on a
  miss (an \<^verbatim>\<open>IndexError\<close> on an empty table), and inverts the probabilities before they are
  rounded.
\<close>

definition calculate_fair_odds ::
    "int \<Rightarrow> int \<Rightarrow> elo_band list \<Rightarrow> py_error + fair_odds_result" where
  "calculate_fair_odds home_team_elo away_team_elo elo_bands =
     (let elo_diff = \<bar>home_team_elo - away_team_elo\<bar>;
          band_num = band_num_of home_team_elo away_team_elo
      in case (case find (\<lambda>b. band b = band_num) elo_bands of
                 Some b \<Rightarrow> Inr b
               | None \<Rightarrow> (case elo_bands of [] \<Rightarrow> Inl IndexError | b # _ \<Rightarrow> Inr b)) of
           Inl e \<Rightarrow> Inl e
         | Inr band_data \<Rightarrow>
             (let is_stronger_home = (away_team_elo \<le> home_team_elo);
                  stronger_win_adj = adjust_probability_for_venue
                                       (stronger_win_pct band_data) is_stronger_home ''stronger_win'';
                  weaker_win_adj = adjust_probability_for_venue
                                       (weaker_win_pct band_data) is_stronger_home ''weaker_win'';
                  draw_adj = adjust_probability_for_venue
                                       (draw_pct band_data) is_stronger_home ''draw'';
                  total = stronger_win_adj + draw_adj + weaker_win_adj
              in if total = 0 then Inl ZeroDivisionError
                 else
                   (let home_win_prob = (if is_stronger_home then stronger_win_adj / total
                                         else weaker_win_adj / total);
                        away_win_prob = (if is_stronger_home then weaker_win_adj / total
                                         else stronger_win_adj / total);
                        draw_prob = draw_adj / total
                    in case py_div 1 home_win_prob of
                         Inl e \<Rightarrow> Inl e
                       | Inr inv_home \<Rightarrow>
                           (case py_div 1 draw_prob of
                              Inl e \<Rightarrow> Inl e
                            | Inr inv_draw \<Rightarrow>
                                (case py_div 1 away_win_prob of
                                   Inl e \<Rightarrow> Inl e
                                 | Inr inv_away \<Rightarrow>
                                     Inr \<lparr>odds_home_win =
                                            \<lparr>probability = py_round_nd home_win_prob 4,
                                             fair_odds = py_round_nd inv_home 2\<rparr>,
                                          odds_draw =
                                            \<lparr>probability = py_round_nd draw_prob 4,
                                             fair_odds = py_round_nd inv_draw 2\<rparr>,
                                          odds_away_win =
                                            \<lparr>probability = py_round_nd away_win_prob 4,
                                             fair_odds = py_round_nd inv_away 2\<rparr>,
                                          meta =
                                            \<lparr>meta_elo_diff = elo_diff,
                                             meta_band = band_num,
                                             meta_stronger_team =
                                               (if is_stronger_home then ''home'' else ''away''),
                                             meta_home_elo = home_team_elo,
                                             meta_away_elo = away_team_elo\<rparr>\<rparr>)))))"

section \<open>Calibration of the venue multipliers\<close>

text \<open>
  A match dictionary, with the keys \<^verbatim>\<open>home_elo\<close>, \<^verbatim>\<open>away_elo\<close>, \<^verbatim>\<open>home_goals\<close> and
  \<^verbatim>\<open>away_goals\<close>. A rating key may be absent, hold \<^verbatim>\<open>None\<close>, or hold a rating.
\<close>

datatype elo_field = Absent | Null | Elo int

record match_data =
  m_home_elo :: elo_field
  m_away_elo :: elo_field
  m_home_goals :: int
  m_away_goals :: int

text \<open>\<^verbatim>\<open>match.get(key, 1500)\<close>: \<open>None\<close> is Python's \<^verbatim>\<open>None\<close>.\<close>

definition match_get :: "elo_field \<Rightarrow> int option" where
  "match_get f = (case f of Absent \<Rightarrow> Some 1500 | Null \<Rightarrow> None | Elo v \<Rightarrow> Some v)"

text \<open>The counters \<^verbatim>\<open>{'wins': 0, 'total': 0}\<close>.\<close>

record tally =
  wins :: nat
  total :: nat

text \<open>One turn of the loop over \<^verbatim>\<open>matches_data\<close>; the two \<^verbatim>\<open>continue\<close>s leave the counters.\<close>

definition tally_match :: "match_data \<Rightarrow> tally \<times> tally \<Rightarrow> tally \<times> tally" where
  "tally_match m st =
     (let stronger_home = fst st; stronger_away = snd st;
          home_elo = match_get (m_home_elo m);
          away_elo = match_get (m_away_elo m)
      in if home_elo = Some 1500 \<or> away_elo = Some 1500 then st
         else case (home_elo, away_elo) of
                (Some h, Some a) \<Rightarrow>
                  (if a \<le> h then
                     (stronger_home\<lparr>wins := (if m_away_goals m < m_home_goals m
                                               then wins stronger_home + 1
                                               else wins stronger_home),
                                     total := total stronger_home + 1\<rparr>,
                      stronger_away)
                   else
                     (stronger_home,
                      stronger_away\<lparr>wins := (if m_home_goals m < m_away_goals m
                                               then wins stronger_away + 1
                                               else wins stronger_away),
                                     total := total stronger_away + 1\<rparr>))
              | _ \<Rightarrow> st)"

fun tally_matches :: "match_data list \<Rightarrow> tally \<times> tally \<Rightarrow> tally \<times> tally" where
  "tally_matches [] st = st"
| "tally_matches (m # ms) st = tally_matches ms (tally_match m st)"

text \<open>
  The result dictionary; a key that a branch does not set is \<open>None\<close>. The date of the
  run (\<^verbatim>\<open>datetime.now()\<close>) is a parameter.
\<close>

record calibration =
  home_multiplier :: real
  away_multiplier :: real
  error :: "string option"
  home_win_rate :: "real option"
  away_win_rate :: "real option"
  combined_rate :: "real option"
  sample_size :: "nat option"
  stronger_home_games :: "nat option"
  stronger_away_games :: "nat option"
  last_updated :: "string option"

definition calculate_home_advantage_multipliers ::
    "match_data list \<Rightarrow> string \<Rightarrow> py_error + calibration" where
  "calculate_home_advantage_multipliers matches_data today =
     (let st = tally_matches matches_data (\<lparr>wins = 0, total = 0\<rparr>, \<lparr>wins = 0, total = 0\<rparr>);
          stronger_home = fst st; stronger_away = snd st
      in if total stronger_home = 0 \<or> total stronger_away = 0 then
           Inr \<lparr>home_multiplier = 1.11, away_multiplier = 0.89,
                error = Some ''Insufficient data'',
                home_win_rate = None, away_win_rate = None, combined_rate = None,
                sample_size = None, stronger_home_games = None,
                stronger_away_games = None, last_updated = None\<rparr>
         else
           (let home_win_rate = real (wins stronger_home) / real (total stronger_home);
                away_win_rate = real (wins stronger_away) / real (total stronger_away);
                combined_wins = wins stronger_home + wins stronger_away;
                combined_total = total stronger_home + total stronger_away;
                combined_rate = real combined_wins / real combined_total
            in case py_div home_win_rate combined_rate of
                 Inl e \<Rightarrow> Inl e
               | Inr home_mult \<Rightarrow>
                   (case py_div away_win_rate combined_rate of
                      Inl e \<Rightarrow> Inl e
                    | Inr away_mult \<Rightarrow>
                        Inr \<lparr>home_multiplier = py_round_nd home_mult 3,
                             away_multiplier = py_round_nd away_mult 3,
                             error = None,
                             home_win_rate = Some (py_round_nd home_win_rate 4),
                             away_win_rate = Some (py_round_nd away_win_rate 4),
                             combined_rate = Some (py_round_nd combined_rate 4),
                             sample_size = Some combined_total,
                             stronger_home_games = Some (total stronger_home),
                             stronger_away_games = Some (total stronger_away),
                             last_updated = Some today\<rparr>)))"

text \<open>
  The two groups of the calibration, as the specification words them: a match is kept when
  both recorded ratings are present and neither is the placeholder 1500; the kept matches
  split into those where the higher-rated side (ties counting for home) played at home and
  those where it played away.
\<close>

definition recorded_ratings :: "match_data \<Rightarrow> (int \<times> int) option" where
  "recorded_ratings m =
     (case (m_home_elo m, m_away_elo m) of
        (Elo h, Elo a) \<Rightarrow> if h = 1500 \<or> a = 1500 then None else Some (h, a)
      | _ \<Rightarrow> None)"

definition stronger_home_group :: "match_data list \<Rightarrow> match_data list" where
  "stronger_home_group ms =
     filter (\<lambda>m. case recorded_ratings m of Some (h, a) \<Rightarrow> a \<le> h | None \<Rightarrow> False) ms"

definition stronger_away_group :: "match_data list \<Rightarrow> match_data list" where
  "stronger_away_group ms =
     filter (\<lambda>m. case recorded_ratings m of Some (h, a) \<Rightarrow> h < a | None \<Rightarrow> False) ms"

section \<open>Doubles\<close>

text \<open>
  A Python float is an IEEE binary64 double. \<open>to_double x\<close> is the double nearest to the
  real \<open>x\<close>, a tie going to the even significand: 53 significant bits, the exponent not
  below -1022. It is meant for results inside the range of the finite doubles; overflow to
  infinity is not part of it.
\<close>

definition to_double :: "real \<Rightarrow> real" where
  "to_double x =
     (if x = 0 then 0
      else
        (let e = max \<lfloor>log 2 \<bar>x\<bar>\<rfloor> (- 1022);
             ulp = 2 powr real_of_int (e - 52)
         in real_of_int (py_round (x / ulp)) * ulp))"

text \<open>The operator \<^verbatim>\<open>+\<close> on two doubles: the exact sum, rounded once.\<close>

definition float_add :: "real \<Rightarrow> real \<Rightarrow> real" where
  "float_add a b = to_double (a + b)"

text \<open>
  \<^verbatim>\<open>round(x, 4)\<close> is correctly rounded: what the program returns for a probability is the
  double nearest to the decimal that \<open>py_round_nd\<close> gives. \<open>probability_sum\<close> is
  \<^verbatim>\<open>probs['home_win'] + probs['draw'] + probs['away_win']\<close> on those doubles, and
  \<open>odds_probability_sum\<close> the same sum over the three \<^verbatim>\<open>'probability'\<close> fields of a
  fair-odds result.
\<close>

definition probability_sum :: "probs \<Rightarrow> real" where
  "probability_sum p =
     float_add (float_add (to_double (home_win p)) (to_double (draw p)))
       (to_double (away_win p))"

definition odds_probability_sum :: "fair_odds_result \<Rightarrow> real" where
  "odds_probability_sum r =
     float_add
       (float_add (to_double (probability (odds_home_win r)))
          (to_double (probability (odds_draw r))))
       (to_double (probability (odds_away_win r)))"

section \<open>The zero-sum property of the expected score\<close>

lemma logistic_pair_neg: "1 / (1 + (10::real) powr x) + 1 / (1 + 10 powr (- x)) = 1"
proof -
  define y where "y = (10::real) powr x"
  have pos: "0 < y" by (simp add: y_def)
  have inv: "(10::real) powr (- x) = 1 / y" by (simp add: y_def powr_minus divide_simps)
  have "1 / (1 + y) + 1 / (1 + 1 / y) = 1"
    using pos by (simp add: field_simps)
  then show ?thesis by (simp add: inv y_def [symmetric])
qed

lemma logistic_pair: "u = - v \<Longrightarrow> 1 / (1 + (10::real) powr v) + 1 / (1 + 10 powr u) = 1"
  using logistic_pair_neg [of v] by simp

text \<open>
  Over the reals the formula of \<^verbatim>\<open>expected_score\<close> is zero-sum: the value for A against B
  and the value for B against A with the opposite home flag add up to 1, the bonus being
  added to the home side only. The program evaluates the formula in doubles, where
  \<^verbatim>\<open>10 ** x\<close>, the division and the addition each round, so its two results need not add
  up to exactly 1.0; the rounding of \<^verbatim>\<open>10 ** x\<close> is outside this embedding, and the lemma
  is a property of the formula only.
\<close>

lemma expected_score_formula_zero_sum:
  "expected_score self a b is_home + expected_score self b a (\<not> is_home) = 1
   \<and> expected_score self a b True
       = 1 / (1 + 10 powr ((b - (a + of_int (home_advantage self))) / 400))
   \<and> expected_score self a b False
       = 1 / (1 + 10 powr (((b + of_int (home_advantage self)) - a) / 400))"
proof (intro conjI)
  show "expected_score self a b is_home + expected_score self b a (\<not> is_home) = 1"
  proof (cases is_home)
    case True
    then show ?thesis
      unfolding expected_score_def Let_def
      by (simp only: if_True if_False not_True_eq_False not_False_eq_True not_not add_0_right)
         (rule logistic_pair, simp add: field_simps)
  next
    case False
    then show ?thesis
      unfolding expected_score_def Let_def
      by (simp only: if_True if_False not_True_eq_False not_False_eq_True not_not add_0_right)
         (rule logistic_pair, simp add: field_simps)
  qed
qed (simp_all add: expected_score_def)

section \<open>Rounding\<close>

lemma py_round_bounds: "\<bar>real_of_int (py_round x) - x\<bar> \<le> 1 / 2"
  unfolding py_round_def Let_def by (auto simp: abs_le_iff)

lemma py_round_nearest: "\<bar>real_of_int (py_round x) - x\<bar> \<le> \<bar>real_of_int n - x\<bar>"
proof (cases "real_of_int n = real_of_int (py_round x)")
  case True
  then show ?thesis by simp
next
  case False
  then have "n \<noteq> py_round x" by auto
  then have "1 \<le> \<bar>n - py_round x\<bar>" by linarith
  then have "1 \<le> \<bar>real_of_int n - real_of_int (py_round x)\<bar>"
    by (metis of_int_1 of_int_abs of_int_diff of_int_le_iff)
  with py_round_bounds [of x] show ?thesis by linarith
qed

lemma py_round_eqI:
  "real_of_int n - 1 / 2 < x \<Longrightarrow> x < real_of_int n + 1 / 2 \<Longrightarrow> py_round x = n"
proof -
  assume a: "real_of_int n - 1 / 2 < x" "x < real_of_int n + 1 / 2"
  have "\<bar>real_of_int (py_round x) - real_of_int n\<bar> < 1"
    using py_round_bounds [of x] a by linarith
  then have "\<bar>py_round x - n\<bar> < 1"
    by (metis of_int_1 of_int_abs of_int_diff of_int_less_iff)
  then show ?thesis by linarith
qed

lemma py_round_of_int: "py_round (real_of_int n) = n"
  by (rule py_round_eqI) simp_all

lemma py_round_nd_eqI:
  "real_of_int k - 1 / 2 < x * 10 ^ n \<Longrightarrow> x * 10 ^ n < real_of_int k + 1 / 2
     \<Longrightarrow> py_round_nd x n = real_of_int k / 10 ^ n"
  unfolding py_round_nd_def by (simp add: py_round_eqI)

section \<open>The margin-of-victory multiplier\<close>

lemma mov_zero: "margin_of_victory_multiplier 0 d = Inr 1"
  by (simp add: margin_of_victory_multiplier_def)

lemma mov_nonzero:
  "g \<noteq> 0 \<Longrightarrow> d \<noteq> - 2200 \<Longrightarrow>
   margin_of_victory_multiplier g d
     = Inr (ln (real_of_int (\<bar>g\<bar> + 1)) * (2.2 / (d * 0.001 + 2.2)))"
  by (simp add: margin_of_victory_multiplier_def Let_def)

lemma mov_raise:
  "g \<noteq> 0 \<Longrightarrow> margin_of_victory_multiplier g (- 2200) = Inl ZeroDivisionError"
  by (simp add: margin_of_victory_multiplier_def Let_def)

text \<open>
  Claim C2, as stated: the multiplier is at least 0 for every goal difference and every
  rating difference. It fails: a winner rated 3000 points below the loser makes the
  dampening factor, and with it the multiplier, negative; at exactly 2200 points below,
  the division raises.
\<close>

theorem mov_negative_counterexample:
  "margin_of_victory_multiplier 1 (- 3000) = Inr (ln 2 * (2.2 / (- 0.8)))
   \<and> ln 2 * (2.2 / (- 0.8)) < (0::real)
   \<and> margin_of_victory_multiplier 1 (- 2200) = Inl ZeroDivisionError"
proof (intro conjI)
  show "margin_of_victory_multiplier 1 (- 3000) = Inr (ln 2 * (2.2 / (- 0.8)))"
    by (simp add: margin_of_victory_multiplier_def Let_def)
  have "0 < ln (2::real)" by simp
  then show "ln 2 * (2.2 / (- 0.8)) < (0::real)" by (simp add: field_simps)
  show "margin_of_victory_multiplier 1 (- 2200) = Inl ZeroDivisionError"
    by (simp add: mov_raise)
qed

text \<open>
  Claim C2, amended: for a goal difference of 0, or a winner-minus-loser rating difference
  above -2200 (negative values for upsets included), the multiplier is returned and is at
  least 0.
\<close>

theorem mov_nonneg:
  "goal_diff = 0 \<or> - 2200 < elo_diff \<Longrightarrow>
   \<exists>m. margin_of_victory_multiplier goal_diff elo_diff = Inr m \<and> 0 \<le> m"
proof (cases "goal_diff = 0")
  case True
  then show ?thesis by (simp add: mov_zero)
next
  case False
  assume "goal_diff = 0 \<or> - 2200 < elo_diff"
  with False have d: "- 2200 < elo_diff" by simp
  have "0 \<le> ln (real_of_int (\<bar>goal_diff\<bar> + 1))" by simp
  moreover have "0 < elo_diff * 0.001 + 2.2" using d by simp
  ultimately have
    "0 \<le> ln (real_of_int (\<bar>goal_diff\<bar> + 1)) * (2.2 / (elo_diff * 0.001 + 2.2))"
    by simp
  then show ?thesis using False d by (simp add: mov_nonzero)
qed

theorem mov_nonneg_witness:
  "\<exists>m. margin_of_victory_multiplier 3 (- 100) = Inr m \<and> 0 \<le> m"
  using mov_nonneg [of 3 "- 100"] by simp

text \<open>
  Claim C6, as stated: the multiplier is 1 at goal difference 0 and, for every fixed
  rating difference, strictly increasing in the goal difference from 1 on. The second part
  fails for a winner rated 3000 below the loser: the multiplier falls from one goal to two.
\<close>

theorem mov_decreasing_counterexample:
  "margin_of_victory_multiplier 1 (- 3000) = Inr (ln 2 * (2.2 / (- 0.8)))
   \<and> margin_of_victory_multiplier 2 (- 3000) = Inr (ln 3 * (2.2 / (- 0.8)))
   \<and> ln 3 * (2.2 / (- 0.8)) < ln 2 * (2.2 / (- 0.8 :: real))"
proof (intro conjI)
  show "margin_of_victory_multiplier 1 (- 3000) = Inr (ln 2 * (2.2 / (- 0.8)))"
    by (simp add: margin_of_victory_multiplier_def Let_def)
  show "margin_of_victory_multiplier 2 (- 3000) = Inr (ln 3 * (2.2 / (- 0.8)))"
    by (simp add: margin_of_victory_multiplier_def Let_def)
  have "ln (2::real) < ln 3" by simp
  then show "ln 3 * (2.2 / (- 0.8)) < ln 2 * (2.2 / (- 0.8 :: real))"
    by (simp add: field_simps)
qed

text \<open>
  Claim C6, amended: the multiplier is exactly 1 at goal difference 0 for any rating
  difference, and for every fixed rating difference above -2200 it is strictly increasing
  in the goal difference from 1 on.
\<close>

theorem mov_increasing:
  "margin_of_victory_multiplier 0 elo_diff = Inr 1
   \<and> (- 2200 < elo_diff \<longrightarrow> 1 \<le> g1 \<longrightarrow> g1 < g2 \<longrightarrow>
        (\<exists>a b. margin_of_victory_multiplier g1 elo_diff = Inr a
             \<and> margin_of_victory_multiplier g2 elo_diff = Inr b \<and> a < b))"
proof (intro conjI impI)
  show "margin_of_victory_multiplier 0 elo_diff = Inr 1" by (rule mov_zero)
next
  assume d: "- 2200 < elo_diff" and g: "1 \<le> g1" "g1 < g2"
  have pos: "0 < 2.2 / (elo_diff * 0.001 + 2.2)" using d by simp
  have "ln (real_of_int (\<bar>g1\<bar> + 1)) < ln (real_of_int (\<bar>g2\<bar> + 1))"
    using g by simp
  then have "ln (real_of_int (\<bar>g1\<bar> + 1)) * (2.2 / (elo_diff * 0.001 + 2.2))
           < ln (real_of_int (\<bar>g2\<bar> + 1)) * (2.2 / (elo_diff * 0.001 + 2.2))"
    using pos by (simp only: mult_less_cancel_right_pos)
  then show "\<exists>a b. margin_of_victory_multiplier g1 elo_diff = Inr a
             \<and> margin_of_victory_multiplier g2 elo_diff = Inr b \<and> a < b"
    using d g by (simp add: mov_nonzero)
qed

theorem mov_increasing_witness:
  "margin_of_victory_multiplier 0 (- 150) = Inr 1
   \<and> (\<exists>a b. margin_of_victory_multiplier 1 (- 150) = Inr a
             \<and> margin_of_victory_multiplier 4 (- 150) = Inr b \<and> a < b)"
  using mov_increasing [of "- 150" 1 4] by simp

section \<open>Venue-adjusted probabilities\<close>

lemmas venue_consts =
  HOME_ADVANTAGE_MULTIPLIER_def AWAY_DISADVANTAGE_MULTIPLIER_def
  DRAW_HOME_MULTIPLIER_def DRAW_AWAY_MULTIPLIER_def

lemma band_num_of_range: "1 \<le> band_num_of h a \<and> band_num_of h a \<le> 10"
  unfolding band_num_of_def by (simp add: pos_imp_zdiv_nonneg_iff)

lemma round4_sum:
  assumes "a + b + c = (1::real)"
  shows "\<bar>py_round_nd a 4 + py_round_nd b 4 + py_round_nd c 4 - 1\<bar> \<le> 1 / 10 ^ 4"
proof -
  define A where "A = py_round (a * 10 ^ 4)"
  define B where "B = py_round (b * 10 ^ 4)"
  define C where "C = py_round (c * 10 ^ 4)"
  have "\<bar>real_of_int A - a * 10 ^ 4\<bar> \<le> 1 / 2" "\<bar>real_of_int B - b * 10 ^ 4\<bar> \<le> 1 / 2"
       "\<bar>real_of_int C - c * 10 ^ 4\<bar> \<le> 1 / 2"
    unfolding A_def B_def C_def by (rule py_round_bounds)+
  then have "\<bar>real_of_int A - a * 10000\<bar> \<le> 1 / 2" "\<bar>real_of_int B - b * 10000\<bar> \<le> 1 / 2"
       "\<bar>real_of_int C - c * 10000\<bar> \<le> 1 / 2"
    by simp_all
  moreover have "a * 10000 + b * 10000 + c * 10000 = 10000"
    using assms by linarith
  ultimately have "\<bar>real_of_int (A + B + C) - 10000\<bar> \<le> 3 / 2"
    by linarith
  then have "\<bar>real_of_int (A + B + C - 10000)\<bar> < 2" by simp
  then have "\<bar>A + B + C - 10000\<bar> < 2" by linarith
  then have "\<bar>A + B + C - 10000\<bar> \<le> 1" by simp
  then have "\<bar>real_of_int (A + B + C - 10000)\<bar> \<le> 1"
    by (metis of_int_1 of_int_abs of_int_le_iff)
  then have "\<bar>(real_of_int A + real_of_int B + real_of_int C) / 10 ^ 4 - 1\<bar> \<le> 1 / 10 ^ 4"
    by (simp add: field_simps)
  then show ?thesis
    unfolding py_round_nd_def A_def B_def C_def by (simp add: add_divide_distrib)
qed

lemma adjusted_total_pos:
  assumes "0 \<le> s" "0 \<le> d" "0 \<le> w" "0 < s + d + (w::real)"
  shows "0 < adjust_probability_for_venue s sh ''stronger_win''
           + adjust_probability_for_venue w sh ''weaker_win''
           + adjust_probability_for_venue d sh ''draw''"
  using assms unfolding adjust_probability_for_venue_def venue_consts
  by (cases sh) simp_all

lemma share_sum: "t \<noteq> 0 \<Longrightarrow> x + y + z = t \<Longrightarrow> x / t + y / t + z / (t::real) = 1"
  by (simp add: add_divide_distrib [symmetric])

subsection \<open>Rounding to a double\<close>

lemma to_double_zero: "to_double 0 = 0"
  by (simp add: to_double_def)

lemma floor_log2_eq:
  assumes "0 < x" "2 powr real_of_int e \<le> x" "x < 2 powr real_of_int (e + 1)"
  shows "\<lfloor>log 2 x\<rfloor> = e"
proof -
  have "real_of_int e \<le> log 2 x" using assms by (simp add: le_log_iff)
  moreover have "log 2 x < real_of_int e + 1" using assms by (simp add: log_less_iff add.commute)
  ultimately show ?thesis by linarith
qed

lemma to_double_small:
  assumes pos: "0 < x" and lo: "1 / 2 ^ n \<le> x" and hi: "x < 2 / 2 ^ n" and n: "n \<le> 1022"
    and m: "real_of_int m - 1 / 2 < x * 2 ^ (n + 52)" "x * 2 ^ (n + 52) < real_of_int m + 1 / 2"
  shows "to_double x = real_of_int m / 2 ^ (n + 52)"
proof -
  have p1: "2 powr real_of_int (- int n) = 1 / 2 ^ n"
    by (simp add: powr_minus powr_realpow divide_simps)
  have "(2::real) powr (1 + - real n) = 2 powr 1 * 2 powr (- real n)" by (rule powr_add)
  also have "\<dots> = 2 / 2 ^ n" by (simp add: powr_minus powr_realpow divide_simps)
  finally have p2: "2 powr real_of_int (- int n + 1) = 2 / 2 ^ n" by simp
  have a1: "2 powr real_of_int (- int n) \<le> x" using lo by (simp only: p1)
  have a2: "x < 2 powr real_of_int (- int n + 1)" using hi by (simp only: p2)
  have "\<bar>x\<bar> = x" using pos by simp
  then have e: "\<lfloor>log 2 \<bar>x\<bar>\<rfloor> = - int n"
    using floor_log2_eq [OF pos a1 a2] by (simp only:)
  have mx: "max (- int n) (- 1022) = - int n" using n by simp
  have "- int n - 52 = - int (n + 52)" by simp
  then have u: "2 powr real_of_int (- int n - 52) = 1 / 2 ^ (n + 52)"
    by (simp only: powr_minus powr_realpow of_int_minus of_int_of_nat_eq) (simp add: divide_simps)
  have r: "py_round (x * 2 ^ (n + 52)) = m" using m by (rule py_round_eqI)
  show ?thesis
    using pos unfolding to_double_def Let_def e mx u by (simp add: r)
qed

lemma to_double_err:
  assumes "0 \<le> x" "x = 0 \<or> 1 / 2 ^ 1022 \<le> x"
  shows "\<bar>to_double x - x\<bar> \<le> x / 2 ^ 53"
proof (cases "x = 0")
  case True
  then show ?thesis by (simp add: to_double_zero)
next
  case False
  with assms have pos: "0 < x" and lo: "1 / 2 ^ 1022 \<le> x" by simp_all
  define e where "e = \<lfloor>log 2 \<bar>x\<bar>\<rfloor>"
  have "2 powr (- 1022) \<le> x"
    using lo by (simp add: powr_minus powr_realpow [of 2 1022, simplified] divide_simps)
  then have "- 1022 \<le> log 2 x" using pos by (simp add: le_log_iff)
  then have e1: "- 1022 \<le> e" unfolding e_def using pos by (simp add: le_floor_iff)
  have "real_of_int e \<le> log 2 x" unfolding e_def using pos by simp
  then have le: "2 powr real_of_int e \<le> x" using pos by (simp add: le_log_iff)
  define ulp where "ulp = (2::real) powr real_of_int (e - 52)"
  have up: "0 < ulp" by (simp add: ulp_def)
  have ue: "ulp = 2 powr real_of_int e / 2 ^ 52"
    unfolding ulp_def by (simp add: powr_diff powr_realpow [of 2 52, simplified])
  have td: "to_double x = real_of_int (py_round (x / ulp)) * ulp"
    using False e1 unfolding to_double_def Let_def e_def [symmetric] ulp_def by (simp add: max_absorb1)
  define y where "y = real_of_int (py_round (x / ulp))"
  have "\<bar>y - x / ulp\<bar> \<le> 1 / 2" unfolding y_def by (rule py_round_bounds)
  then have "\<bar>y - x / ulp\<bar> * ulp \<le> 1 / 2 * ulp"
    using up by (intro mult_right_mono) simp_all
  moreover have "y * ulp - x = (y - x / ulp) * ulp" using up by (simp add: field_simps)
  then have "\<bar>y * ulp - x\<bar> = \<bar>y - x / ulp\<bar> * ulp" using up by (simp add: abs_mult)
  ultimately have "\<bar>real_of_int (py_round (x / ulp)) * ulp - x\<bar> \<le> ulp / 2"
    unfolding y_def by simp
  also have "ulp / 2 \<le> x / 2 ^ 53" using le unfolding ue by (simp add: divide_simps)
  finally show ?thesis unfolding td .
qed


lemma to_double_grid:
  assumes "0 \<le> x" "x = 0 \<or> t \<le> x" "1 / 2 ^ 1022 \<le> t"
  shows "\<bar>to_double x - x\<bar> \<le> x / 2 ^ 53" "0 \<le> to_double x"
        "to_double x = 0 \<or> t / 2 \<le> to_double x"
proof -
  have g: "x = 0 \<or> 1 / 2 ^ 1022 \<le> x" using assms by auto
  show e: "\<bar>to_double x - x\<bar> \<le> x / 2 ^ 53" using assms(1) g by (rule to_double_err)
  have h: "x / 2 ^ 53 \<le> x / 2" using assms(1) by (simp add: divide_simps)
  from e h show "0 \<le> to_double x" by linarith
  show "to_double x = 0 \<or> t / 2 \<le> to_double x"
  proof (cases "x = 0")
    case True
    then show ?thesis by (simp add: to_double_zero)
  next
    case False
    with assms have "t \<le> x" by simp
    with e h show ?thesis by linarith
  qed
qed

lemma tiny_le: "(1::real) / 2 ^ 1022 \<le> 1 / 10 ^ 4 / 4"
proof -
  have "(10::real) ^ 4 * 4 \<le> 2 ^ 17" by simp
  also have "(2::real) ^ 17 \<le> 2 ^ 1022" by (rule power_increasing) simp_all
  finally have "(10::real) ^ 4 * 4 \<le> 2 ^ 1022" .
  then have "(1::real) / 2 ^ 1022 \<le> 1 / (10 ^ 4 * 4)"
    by (intro divide_left_mono) simp_all
  then show ?thesis by simp
qed

lemma double_sum3_arith:
  fixes a b c da db dc s1 s :: real
  assumes ga: "\<bar>da - a\<bar> \<le> a / 2 ^ 53" and gb: "\<bar>db - b\<bar> \<le> b / 2 ^ 53"
    and gc: "\<bar>dc - c\<bar> \<le> c / 2 ^ 53"
    and g1: "\<bar>s1 - (da + db)\<bar> \<le> (da + db) / 2 ^ 53"
    and g2: "\<bar>s - (s1 + dc)\<bar> \<le> (s1 + dc) / 2 ^ 53"
    and nn: "0 \<le> a" "0 \<le> b" "0 \<le> c"
    and sum: "\<bar>a + b + c - 1\<bar> \<le> 1 / 10 ^ 4"
  shows "\<bar>s - 1\<bar> \<le> 1 / 10 ^ 4 + 1 / 2 ^ 50"
proof -
  note f = ga [unfolded abs_le_iff] gb [unfolded abs_le_iff] gc [unfolded abs_le_iff]
    g1 [unfolded abs_le_iff] g2 [unfolded abs_le_iff] sum [unfolded abs_le_iff]
  have T: "a + b + c \<le> 11 / 10" using f(6) by simp
  have e1: "da + db + dc - (a + b + c) \<le> (11 / 10) / 2 ^ 53"
           "a + b + c - (da + db + dc) \<le> (11 / 10) / 2 ^ 53"
    using f(1,2,3) T by simp_all
  have D: "da + db + dc \<le> 12 / 10" "0 \<le> dc" using e1 T f(3) nn by simp_all
  have e2: "s1 - (da + db) \<le> (12 / 10) / 2 ^ 53" "da + db - s1 \<le> (12 / 10) / 2 ^ 53"
    using f(4) D by simp_all
  have S: "s1 + dc \<le> 13 / 10" using e2 D by simp
  have e3: "s - (s1 + dc) \<le> (13 / 10) / 2 ^ 53" "s1 + dc - s \<le> (13 / 10) / 2 ^ 53"
    using f(5) S by simp_all
  have "s - (a + b + c) \<le> 1 / 2 ^ 50" "a + b + c - s \<le> 1 / 2 ^ 50"
    using e1 e2 e3 by simp_all
  with f(6) have "s - 1 \<le> 1 / 10 ^ 4 + 1 / 2 ^ 50" "1 - s \<le> 1 / 10 ^ 4 + 1 / 2 ^ 50"
    by simp_all
  then show ?thesis by (simp only: abs_le_iff) simp
qed

lemma double_sum3:
  assumes nn: "0 \<le> a" "0 \<le> b" "0 \<le> c"
    and grid: "a = 0 \<or> 1 / 10 ^ 4 \<le> a" "b = 0 \<or> 1 / 10 ^ 4 \<le> b" "c = 0 \<or> 1 / 10 ^ 4 \<le> c"
    and sum: "\<bar>a + b + c - 1\<bar> \<le> 1 / 10 ^ 4"
  shows "\<bar>float_add (float_add (to_double a) (to_double b)) (to_double c) - 1\<bar>
           \<le> 1 / 10 ^ 4 + 1 / 2 ^ 50"
proof -
  define t :: real where "t = 1 / 10 ^ 4"
  have t4: "1 / 2 ^ 1022 \<le> t / 4" unfolding t_def by (rule tiny_le)
  have tpos: "0 < t" by (simp add: t_def)
  from t4 tpos have t1: "1 / 2 ^ 1022 \<le> t" and t2: "1 / 2 ^ 1022 \<le> t / 2" by linarith+
  define da db dc where "da = to_double a" and "db = to_double b" and "dc = to_double c"
  note ga = to_double_grid [OF nn(1) grid(1) [folded t_def] t1, folded da_def]
  note gb = to_double_grid [OF nn(2) grid(2) [folded t_def] t1, folded db_def]
  note gc = to_double_grid [OF nn(3) grid(3) [folded t_def] t1, folded dc_def]
  define s1 where "s1 = to_double (da + db)"
  have n1: "0 \<le> da + db" using ga(2) gb(2) by simp
  have g1: "da + db = 0 \<or> t / 2 \<le> da + db" using ga(2,3) gb(2,3) by linarith
  note gs1 = to_double_grid [OF n1 g1 t2, folded s1_def]
  define s where "s = to_double (s1 + dc)"
  have n2: "0 \<le> s1 + dc" using gs1(2) gc(2) by simp
  have g2: "s1 + dc = 0 \<or> t / 2 / 2 \<le> s1 + dc" using gs1(2,3) gc(2,3) tpos by linarith
  have t4': "1 / 2 ^ 1022 \<le> t / 2 / 2" using t4 by simp
  note gs = to_double_grid [OF n2 g2 t4', folded s_def]
  have "\<bar>s - 1\<bar> \<le> 1 / 10 ^ 4 + 1 / 2 ^ 50"
    using ga(1) gb(1) gc(1) gs1(1) gs(1) nn sum by (rule double_sum3_arith)
  then show ?thesis
    unfolding float_add_def s_def s1_def da_def db_def dc_def .
qed

lemma py_round_nd_grid:
  assumes "0 \<le> x"
  shows "0 \<le> py_round_nd x 4" "py_round_nd x 4 = 0 \<or> 1 / 10 ^ 4 \<le> py_round_nd x 4"
proof -
  have "\<bar>real_of_int (py_round (x * 10 ^ 4)) - x * 10 ^ 4\<bar> \<le> 1 / 2" by (rule py_round_bounds)
  moreover have "0 \<le> x * 10 ^ 4" using assms by simp
  ultimately have "- 1 < real_of_int (py_round (x * 10 ^ 4))" by linarith
  then have k: "0 \<le> py_round (x * 10 ^ 4)" by linarith
  then show "0 \<le> py_round_nd x 4" by (simp add: py_round_nd_def)
  from k have "py_round (x * 10 ^ 4) = 0 \<or> 1 \<le> py_round (x * 10 ^ 4)" by linarith
  then show "py_round_nd x 4 = 0 \<or> 1 / 10 ^ 4 \<le> py_round_nd x 4"
  proof
    assume "py_round (x * 10 ^ 4) = 0"
    then show ?thesis by (simp add: py_round_nd_def)
  next
    assume "1 \<le> py_round (x * 10 ^ 4)"
    then have "1 \<le> real_of_int (py_round (x * 10 ^ 4))" by linarith
    then show ?thesis by (simp add: py_round_nd_def divide_simps)
  qed
qed

lemma rounded_shares:
  assumes "0 \<le> x" "0 \<le> y" "0 \<le> z" "x + y + z = 1"
  shows "\<bar>py_round_nd x 4 + py_round_nd y 4 + py_round_nd z 4 - 1\<bar> \<le> 1 / 10 ^ 4"
    and "\<bar>float_add (float_add (to_double (py_round_nd x 4)) (to_double (py_round_nd y 4)))
            (to_double (py_round_nd z 4)) - 1\<bar> \<le> 1 / 10 ^ 4 + 1 / 2 ^ 50"
proof -
  show d: "\<bar>py_round_nd x 4 + py_round_nd y 4 + py_round_nd z 4 - 1\<bar> \<le> 1 / 10 ^ 4"
    using assms(4) by (rule round4_sum)
  show "\<bar>float_add (float_add (to_double (py_round_nd x 4)) (to_double (py_round_nd y 4)))
            (to_double (py_round_nd z 4)) - 1\<bar> \<le> 1 / 10 ^ 4 + 1 / 2 ^ 50"
    using py_round_nd_grid [OF assms(1)] py_round_nd_grid [OF assms(2)]
      py_round_nd_grid [OF assms(3)] d
    by (intro double_sum3) simp_all
qed

lemma adjust_nonneg: "0 \<le> x \<Longrightarrow> 0 \<le> adjust_probability_for_venue x sh m"
  unfolding adjust_probability_for_venue_def venue_consts by simp

subsection \<open>The sum of the three probabilities\<close>

text \<open>
  Claim C5, as stated: for every table holding the band of the fixture, the three returned
  probabilities sum to 1.0 within 1e-4. It fails in the doubles the program returns: for
  the band 0.25 / 0.625 / 0.125 and the ratings 1600 against 1500 the probabilities are
  0.2824, 0.6043 and 0.1132, whose decimals sum to 0.9999 but whose doubles, added as Python
  adds them, give 0.9998999999999999, further from 1 than 1e-4 and than the double of the
  literal \<^verbatim>\<open>1e-4\<close>.
\<close>

theorem venue_probabilities_doubles_counterexample:
  "get_venue_adjusted_probabilities 1600 1500
      [\<lparr>band = 3, stronger_win_pct = 0.25, draw_pct = 0.625, weaker_win_pct = 0.125\<rparr>]
     = Inr \<lparr>home_win = 0.2824, draw = 0.6043, away_win = 0.1132\<rparr>
   \<and> probability_sum \<lparr>home_win = 0.2824, draw = 0.6043, away_win = 0.1132\<rparr>
     = 9006298534815517 / 2 ^ 53
   \<and> 1 / 10 ^ 4 < \<bar>9006298534815517 / 2 ^ 53 - (1::real)\<bar>
   \<and> to_double (1 / 10 ^ 4) = 7378697629483821 / 2 ^ 66
   \<and> 7378697629483821 / 2 ^ 66 < \<bar>9006298534815517 / 2 ^ 53 - (1::real)\<bar>"
proof (intro conjI)
  have n: "band_num_of 1600 1500 = 3" by (simp add: band_num_of_def)
  have r: "py_round_nd (2775 / 9825) 4 = 0.2824" "py_round_nd (59375 / 98250) 4 = 0.6043"
          "py_round_nd (11125 / 98250) 4 = 0.1132"
    using py_round_nd_eqI [of 2824 "2775 / 9825" 4] py_round_nd_eqI [of 6043 "59375 / 98250" 4]
          py_round_nd_eqI [of 1132 "11125 / 98250" 4]
    by simp_all
  have "get_venue_adjusted_probabilities 1600 1500
      [\<lparr>band = 3, stronger_win_pct = 0.25, draw_pct = 0.625, weaker_win_pct = 0.125\<rparr>]
     = Inr \<lparr>home_win = py_round_nd (2775 / 9825) 4, draw = py_round_nd (59375 / 98250) 4,
            away_win = py_round_nd (11125 / 98250) 4\<rparr>"
    by (simp add: get_venue_adjusted_probabilities_def n Let_def
          adjust_probability_for_venue_def venue_consts)
  then show "get_venue_adjusted_probabilities 1600 1500
      [\<lparr>band = 3, stronger_win_pct = 0.25, draw_pct = 0.625, weaker_win_pct = 0.125\<rparr>]
     = Inr \<lparr>home_win = 0.2824, draw = 0.6043, away_win = 0.1132\<rparr>"
    by (simp only: r)
next
  have dh: "to_double 0.2824 = 5087266139077712 / 2 ^ 54"
    using to_double_small [of "0.2824" 2 5087266139077712] by simp
  have dd: "to_double 0.6043 = 5443050509639981 / 2 ^ 53"
    using to_double_small [of "0.6043" 1 5443050509639981] by simp
  have da: "to_double 0.1132 = 8156919645093442 / 2 ^ 56"
    using to_double_small [of "0.1132" 4 8156919645093442] by simp
  have s1: "to_double (5087266139077712 / 2 ^ 54 + 5443050509639981 / 2 ^ 53)
              = 7986683579178837 / 2 ^ 53"
    using to_double_small
      [of "5087266139077712 / 2 ^ 54 + 5443050509639981 / 2 ^ 53" 1 7986683579178837]
    by simp
  have s2: "to_double (7986683579178837 / 2 ^ 53 + 8156919645093442 / 2 ^ 56)
              = 9006298534815517 / 2 ^ 53"
    using to_double_small
      [of "7986683579178837 / 2 ^ 53 + 8156919645093442 / 2 ^ 56" 1 9006298534815517]
    by simp
  show "probability_sum \<lparr>home_win = 0.2824, draw = 0.6043, away_win = 0.1132\<rparr>
     = 9006298534815517 / 2 ^ 53"
    unfolding probability_sum_def float_add_def probs.select_convs dh dd da s1 s2 by (rule refl)
next
  show "1 / 10 ^ 4 < \<bar>9006298534815517 / 2 ^ 53 - (1::real)\<bar>" by simp
next
  show "to_double (1 / 10 ^ 4) = 7378697629483821 / 2 ^ 66"
    using to_double_small [of "1 / 10 ^ 4" 14 7378697629483821] by simp
next
  show "7378697629483821 / 2 ^ 66 < \<bar>9006298534815517 / 2 ^ 53 - (1::real)\<bar>" by simp
qed

text \<open>
  Claim C5, amended: when the table has an entry for the band of the fixture (the band
  number is always between 1 and 10) and that entry is a frequency distribution (the
  percentages are not negative and not all zero, as the data model requires of a band), the
  three probabilities that \<^verbatim>\<open>get_venue_adjusted_probabilities\<close> returns are the doubles
  nearest to three multiples of 1e-4 that sum to 1 within 1e-4, whichever side is the
  stronger, and their sum in double arithmetic is within 1e-4 + 2^-50 of 1.0; so are the
  three probabilities in every result of \<^verbatim>\<open>calculate_fair_odds\<close>.
\<close>

theorem venue_probabilities_doubles:
  assumes found: "find (\<lambda>b. band b = band_num_of home_elo away_elo) elo_bands = Some bd"
    and nonneg: "0 \<le> stronger_win_pct bd" "0 \<le> draw_pct bd" "0 \<le> weaker_win_pct bd"
    and some: "0 < stronger_win_pct bd + draw_pct bd + weaker_win_pct bd"
  shows "(\<exists>p. get_venue_adjusted_probabilities home_elo away_elo elo_bands = Inr p
              \<and> \<bar>home_win p + draw p + away_win p - 1\<bar> \<le> 1 / 10 ^ 4
              \<and> \<bar>probability_sum p - 1\<bar> \<le> 1 / 10 ^ 4 + 1 / 2 ^ 50)
         \<and> (\<forall>r. calculate_fair_odds home_elo away_elo elo_bands = Inr r \<longrightarrow>
               \<bar>probability (odds_home_win r) + probability (odds_draw r)
                  + probability (odds_away_win r) - 1\<bar> \<le> 1 / 10 ^ 4
               \<and> \<bar>odds_probability_sum r - 1\<bar> \<le> 1 / 10 ^ 4 + 1 / 2 ^ 50)"
proof -
  define sh where "sh = (away_elo \<le> home_elo)"
  define s where "s = adjust_probability_for_venue (stronger_win_pct bd) sh ''stronger_win''"
  define w where "w = adjust_probability_for_venue (weaker_win_pct bd) sh ''weaker_win''"
  define d where "d = adjust_probability_for_venue (draw_pct bd) sh ''draw''"
  have pos: "0 < s + w + d"
    unfolding s_def w_def d_def using nonneg some by (rule adjusted_total_pos)
  have nn: "0 \<le> s" "0 \<le> w" "0 \<le> d"
    unfolding s_def w_def d_def using nonneg by (simp_all add: adjust_nonneg)
  define t where "t = s + w + d"
  have t: "0 < t" "s + w + d = t" "s + d + w = t" using pos by (simp_all add: t_def)
  have sn: "0 \<le> s / t" "0 \<le> w / t" "0 \<le> d / t" using nn t(1) by simp_all
  have one: "s / t + d / t + w / t = 1" "w / t + d / t + s / t = 1"
    using t(1) by (simp_all add: add_divide_distrib [symmetric] t_def)
  note a = rounded_shares [OF sn(1) sn(3) sn(2) one(1)]
  note b = rounded_shares [OF sn(2) sn(3) sn(1) one(2)]
  have first: "\<exists>p. get_venue_adjusted_probabilities home_elo away_elo elo_bands = Inr p
              \<and> \<bar>home_win p + draw p + away_win p - 1\<bar> \<le> 1 / 10 ^ 4
              \<and> \<bar>probability_sum p - 1\<bar> \<le> 1 / 10 ^ 4 + 1 / 2 ^ 50"
    unfolding get_venue_adjusted_probabilities_def Let_def found option.case
      sh_def [symmetric] s_def [symmetric] w_def [symmetric] d_def [symmetric] t(2)
    using t(1) a b by (cases sh) (simp_all add: probability_sum_def)
  have second: "\<bar>probability (odds_home_win r) + probability (odds_draw r)
                  + probability (odds_away_win r) - 1\<bar> \<le> 1 / 10 ^ 4
               \<and> \<bar>odds_probability_sum r - 1\<bar> \<le> 1 / 10 ^ 4 + 1 / 2 ^ 50"
    if "calculate_fair_odds home_elo away_elo elo_bands = Inr r" for r
    using that
    unfolding calculate_fair_odds_def Let_def found option.case sum.case
      sh_def [symmetric] s_def [symmetric] w_def [symmetric] d_def [symmetric] t(3)
    using t(1) a b
    by (cases sh) (auto simp: py_div_def odds_probability_sum_def split: if_splits)
  from first second show ?thesis by blast
qed

theorem venue_probabilities_doubles_witness:
  "(\<exists>p. get_venue_adjusted_probabilities 1500 1600
            [\<lparr>band = 3, stronger_win_pct = 0.55, draw_pct = 0.25, weaker_win_pct = 0.2\<rparr>] = Inr p
        \<and> \<bar>home_win p + draw p + away_win p - 1\<bar> \<le> 1 / 10 ^ 4
        \<and> \<bar>probability_sum p - 1\<bar> \<le> 1 / 10 ^ 4 + 1 / 2 ^ 50)
   \<and> (\<exists>r. calculate_fair_odds 1500 1600
            [\<lparr>band = 3, stronger_win_pct = 0.55, draw_pct = 0.25, weaker_win_pct = 0.2\<rparr>] = Inr r
        \<and> \<bar>probability (odds_home_win r) + probability (odds_draw r)
             + probability (odds_away_win r) - 1\<bar> \<le> 1 / 10 ^ 4
        \<and> \<bar>odds_probability_sum r - 1\<bar> \<le> 1 / 10 ^ 4 + 1 / 2 ^ 50)"
proof -
  let ?b = "\<lparr>band = 3, stronger_win_pct = 0.55, draw_pct = 0.25, weaker_win_pct = 0.2\<rparr>"
  have n: "band_num_of 1500 1600 = 3" by (simp add: band_num_of_def)
  have ex: "\<exists>r. calculate_fair_odds 1500 1600 [?b] = Inr r"
    by (simp add: calculate_fair_odds_def n Let_def py_div_def
          adjust_probability_for_venue_def venue_consts)
  have "find (\<lambda>b. band b = band_num_of 1500 1600) [?b] = Some ?b" by (simp add: n)
  from venue_probabilities_doubles [OF this] ex show ?thesis by auto
qed

section \<open>Fair odds and the zero probability\<close>





section \<open>Calibration with an empty group\<close>

lemma tally_match_totals:
  "total (fst (tally_match m st))
     = total (fst st)
       + (if (case recorded_ratings m of Some (h, a) \<Rightarrow> a \<le> h | None \<Rightarrow> False) then 1 else 0)
   \<and> total (snd (tally_match m st))
     = total (snd st)
       + (if (case recorded_ratings m of Some (h, a) \<Rightarrow> h < a | None \<Rightarrow> False) then 1 else 0)"
  unfolding tally_match_def recorded_ratings_def match_get_def Let_def
  by (cases "m_home_elo m"; cases "m_away_elo m") auto

lemma tally_matches_totals:
  "total (fst (tally_matches ms st)) = total (fst st) + length (stronger_home_group ms)
   \<and> total (snd (tally_matches ms st)) = total (snd st) + length (stronger_away_group ms)"
proof (induction ms arbitrary: st)
  case Nil
  show ?case by (simp add: stronger_home_group_def stronger_away_group_def)
next
  case (Cons m ms)
  show ?case
    using Cons.IH [of "tally_match m st"] tally_match_totals [of m st]
    by (simp add: stronger_home_group_def stronger_away_group_def)
qed

text \<open>
  Claim C8. When, after the matches with a missing or 1500 rating are discarded, the
  stronger-team-home group or the stronger-team-away group is empty, the calibration
  returns exactly the defaults 1.11 and 0.89 with the error indicator
  \<^verbatim>\<open>'Insufficient data'\<close> and no other key; it returns, so no division by zero happens.
\<close>

theorem calibration_fallback:
  assumes "stronger_home_group matches_data = [] \<or> stronger_away_group matches_data = []"
  shows "calculate_home_advantage_multipliers matches_data today
           = Inr \<lparr>home_multiplier = 1.11, away_multiplier = 0.89,
                  error = Some ''Insufficient data'',
                  home_win_rate = None, away_win_rate = None, combined_rate = None,
                  sample_size = None, stronger_home_games = None,
                  stronger_away_games = None, last_updated = None\<rparr>"
proof -
  let ?st = "tally_matches matches_data (\<lparr>wins = 0, total = 0\<rparr>, \<lparr>wins = 0, total = 0\<rparr>)"
  have "total (fst ?st) = length (stronger_home_group matches_data)"
       "total (snd ?st) = length (stronger_away_group matches_data)"
    using tally_matches_totals [of matches_data "(\<lparr>wins = 0, total = 0\<rparr>, \<lparr>wins = 0, total = 0\<rparr>)"]
    by simp_all
  with assms have "total (fst ?st) = 0 \<or> total (snd ?st) = 0" by auto
  then show ?thesis
    unfolding calculate_home_advantage_multipliers_def Let_def by (simp only: if_True)
qed

theorem calibration_fallback_witness:
  "calculate_home_advantage_multipliers
     [\<lparr>m_home_elo = Elo 1500, m_away_elo = Elo 1500, m_home_goals = 2, m_away_goals = 1\<rparr>,
      \<lparr>m_home_elo = Absent, m_away_elo = Null, m_home_goals = 0, m_away_goals = 0\<rparr>,
      \<lparr>m_home_elo = Elo 1620, m_away_elo = Elo 1580, m_home_goals = 0, m_away_goals = 3\<rparr>]
     ''2024-05-19''
   = Inr \<lparr>home_multiplier = 1.11, away_multiplier = 0.89,
          error = Some ''Insufficient data'',
          home_win_rate = None, away_win_rate = None, combined_rate = None,
          sample_size = None, stronger_home_games = None,
          stronger_away_games = None, last_updated = None\<rparr>"
  by (rule calibration_fallback)
     (simp add: stronger_away_group_def recorded_ratings_def)

section \<open>Form metrics of a short history\<close>

text \<open>
  Claim C10. For a team that is absent from the history map, or whose history has fewer
  than 2 entries, \<^verbatim>\<open>calculate_form_metrics\<close> returns exactly the 5-match and 10-match
  changes 0, the trend \<^verbatim>\<open>'stable'\<close> and the form rating 5.0.
\<close>

theorem form_metrics_default:
  assumes "case hist team of None \<Rightarrow> True | Some h \<Rightarrow> length h < 2"
  shows "calculate_form_metrics team hist num_matches
           = \<lparr>elo_change_last_5 = 0, elo_change_last_10 = 0,
              trend = ''stable'', form_rating = 5.0\<rparr>"
  using assms unfolding calculate_form_metrics_def
  by (cases "hist team") simp_all

theorem form_metrics_default_witness:
  "calculate_form_metrics ''Arsenal''
      [''Arsenal'' \<mapsto> [\<lparr>date = ''2024-05-19'', elo = 1893\<rparr>]] 10
     = \<lparr>elo_change_last_5 = 0, elo_change_last_10 = 0, trend = ''stable'', form_rating = 5.0\<rparr>
   \<and> calculate_form_metrics ''Luton''
      [''Arsenal'' \<mapsto> [\<lparr>date = ''2024-05-19'', elo = 1893\<rparr>]] 10
     = \<lparr>elo_change_last_5 = 0, elo_change_last_10 = 0, trend = ''stable'', form_rating = 5.0\<rparr>"
  using form_metrics_default [of "[''Arsenal'' \<mapsto> [\<lparr>date = ''2024-05-19'', elo = 1893\<rparr>]]" "''Arsenal''" 10]
        form_metrics_default [of "[''Arsenal'' \<mapsto> [\<lparr>date = ''2024-05-19'', elo = 1893\<rparr>]]" "''Luton''" 10]
  by simp

section \<open>A band missing from the table\<close>





section \<open>Processing a match\<close>

lemma calculate_elo_change_raise:
  "use_mov self \<Longrightarrow> tg \<noteq> og \<Longrightarrow> (if og < tg then te - oe else oe - te) = - 2200 \<Longrightarrow>
   calculate_elo_change self te oe tg og h = Inl ZeroDivisionError"
  unfolding calculate_elo_change_def Let_def
  by (simp add: mov_raise)

lemma calculate_elo_change_ok:
  "\<not> (use_mov self \<and> tg \<noteq> og \<and> (if og < tg then te - oe else oe - te) = - 2200) \<Longrightarrow>
   \<exists>c. calculate_elo_change self te oe tg og h = Inr c"
  unfolding calculate_elo_change_def Let_def
  by (auto simp: mov_nonzero)

lemma get_current_elo_1500:
  "default_elo self = 1500 \<Longrightarrow>
   get_current_elo self team = (case current_elo self team of None \<Rightarrow> 1500 | Some r \<Rightarrow> r)"
  by (simp add: get_current_elo_def split: option.split)

lemma process_match_result:
  assumes "calculate_elo_change self (real_of_int (get_current_elo self home_team))
             (real_of_int (get_current_elo self away_team)) home_goals away_goals True = Inr hc"
    and "calculate_elo_change self (real_of_int (get_current_elo self away_team))
             (real_of_int (get_current_elo self home_team)) away_goals home_goals False = Inr ac"
  shows "process_match self home_team away_team home_goals away_goals match_date update_history
     = Inr (self\<lparr>current_elo := (current_elo self)
                (home_team \<mapsto> py_round (real_of_int (get_current_elo self home_team) + hc),
                 away_team \<mapsto> py_round (real_of_int (get_current_elo self away_team) + ac)),
              elo_history :=
                (if update_history then
                   append_history
                     (append_history (elo_history self) home_team
                        \<lparr>date = match_date,
                         elo = py_round (real_of_int (get_current_elo self home_team) + hc)\<rparr>)
                     away_team
                     \<lparr>date = match_date,
                      elo = py_round (real_of_int (get_current_elo self away_team) + ac)\<rparr>
                 else elo_history self)\<rparr>,
            (py_round (real_of_int (get_current_elo self home_team) + hc),
             py_round (real_of_int (get_current_elo self away_team) + ac),
             py_round_nd hc 1, py_round_nd ac 1))"
  unfolding process_match_def Let_def assms sum.case by (rule refl)

lemma elo_changes_ok:
  assumes ok: "\<not> (use_mov self \<and> home_goals \<noteq> away_goals
                \<and> (if away_goals < home_goals
                    then get_current_elo self home_team - get_current_elo self away_team
                    else get_current_elo self away_team - get_current_elo self home_team)
                   = - 2200)"
  shows "\<exists>hc ac.
      calculate_elo_change self (real_of_int (get_current_elo self home_team))
          (real_of_int (get_current_elo self away_team)) home_goals away_goals True = Inr hc
    \<and> calculate_elo_change self (real_of_int (get_current_elo self away_team))
          (real_of_int (get_current_elo self home_team)) away_goals home_goals False = Inr ac"
proof -
  let ?he = "get_current_elo self home_team" and ?ae = "get_current_elo self away_team"
  have okh: "\<not> (use_mov self \<and> home_goals \<noteq> away_goals
               \<and> (if away_goals < home_goals then real_of_int ?he - real_of_int ?ae
                   else real_of_int ?ae - real_of_int ?he) = - 2200)"
  proof
    assume a: "use_mov self \<and> home_goals \<noteq> away_goals
               \<and> (if away_goals < home_goals then real_of_int ?he - real_of_int ?ae
                   else real_of_int ?ae - real_of_int ?he) = - 2200"
    then have "real_of_int (if away_goals < home_goals then ?he - ?ae else ?ae - ?he)
                 = real_of_int (- 2200)"
      by (simp split: if_splits)
    then have "(if away_goals < home_goals then ?he - ?ae else ?ae - ?he) = - 2200"
      by (simp only: of_int_eq_iff)
    with a ok show False by simp
  qed
  have oka: "\<not> (use_mov self \<and> away_goals \<noteq> home_goals
               \<and> (if home_goals < away_goals then real_of_int ?ae - real_of_int ?he
                   else real_of_int ?he - real_of_int ?ae) = - 2200)"
    using okh by (auto split: if_splits)
  from calculate_elo_change_ok [OF okh] calculate_elo_change_ok [OF oka]
  show ?thesis by blast
qed

text \<open>
  The level draw between two teams at 1500, with the default parameters: the expected
  score of the home side is \<open>1 / (1 + 10 powr (- 1 / 4))\<close>, about 0.64, and the changes are
  about -2.8 and 2.8.
\<close>

lemma quarter_power: "((10::real) powr (1 / 4)) ^ 4 = 10"
proof -
  have "((10::real) powr (1 / 4)) ^ 4 = (10 powr (1 / 4)) powr (real 4)"
    by (simp only: powr_realpow [symmetric] powr_gt_zero)
  also have "\<dots> = 10 powr (1 / 4 * real 4)" by (simp only: powr_powr)
  also have "\<dots> = 10" by simp
  finally show ?thesis .
qed

lemma quarter_bounds: "1.77 < (10::real) powr (1 / 4)" "(10::real) powr (1 / 4) < 1.79"
proof -
  let ?r = "(10::real) powr (1 / 4)"
  show "1.77 < ?r"
  proof (rule ccontr)
    assume "\<not> 1.77 < ?r"
    then have "?r \<le> 1.77" by simp
    then have "?r ^ 4 \<le> 1.77 ^ 4" by (intro power_mono) simp_all
    then show False by (simp add: quarter_power power_divide)
  qed
  show "?r < 1.79"
  proof (rule ccontr)
    assume "\<not> ?r < 1.79"
    then have "1.79 \<le> ?r" by simp
    then have "(1.79::real) ^ 4 \<le> ?r ^ 4" by (intro power_mono) simp_all
    then show False by (simp add: quarter_power power_divide)
  qed
qed

lemma draw_change_home:
  "\<exists>c. calculate_elo_change ELOCalculator_default 1500 1500 0 0 True = Inr c
      \<and> - 2.85 < c \<and> c < - 2.75"
proof -
  define r where "r = (10::real) powr (1 / 4)"
  have b: "1.77 < r" "r < 1.79" unfolding r_def by (rule quarter_bounds)+
  have inv: "(10::real) powr (- (1 / 4)) = 1 / r"
    unfolding r_def by (simp add: powr_minus divide_simps)
  have e: "expected_score ELOCalculator_default 1500 1500 True = 1 / (1 + 1 / r)"
    by (simp add: expected_score_def ELOCalculator_default_def ELOCalculator_init_def inv)
  have c: "calculate_elo_change ELOCalculator_default 1500 1500 0 0 True
             = Inr (20 * (1 / 2 - 1 / (1 + 1 / r)))"
    unfolding calculate_elo_change_def Let_def e
    by (simp add: ELOCalculator_default_def ELOCalculator_init_def)
  have eq: "20 * (1 / 2 - 1 / (1 + 1 / r)) = 10 * (1 - r) / (1 + r)"
    using b by (simp add: field_simps)
  have "- 2.85 < 10 * (1 - r) / (1 + r)" "10 * (1 - r) / (1 + r) < - 2.75"
    using b by (simp_all add: field_simps)
  with c eq show ?thesis by simp
qed

lemma draw_change_away:
  "\<exists>c. calculate_elo_change ELOCalculator_default 1500 1500 0 0 False = Inr c
      \<and> 2.75 < c \<and> c < 2.85"
proof -
  define r where "r = (10::real) powr (1 / 4)"
  have b: "1.77 < r" "r < 1.79" unfolding r_def by (rule quarter_bounds)+
  have e: "expected_score ELOCalculator_default 1500 1500 False = 1 / (1 + r)"
    by (simp add: expected_score_def ELOCalculator_default_def ELOCalculator_init_def r_def)
  have c: "calculate_elo_change ELOCalculator_default 1500 1500 0 0 False
             = Inr (20 * (1 / 2 - 1 / (1 + r)))"
    unfolding calculate_elo_change_def Let_def e
    by (simp add: ELOCalculator_default_def ELOCalculator_init_def)
  have eq: "20 * (1 / 2 - 1 / (1 + r)) = 10 * (r - 1) / (1 + r)"
    using b by (simp add: field_simps)
  have "2.75 < 10 * (r - 1) / (1 + r)" "10 * (r - 1) / (1 + r) < 2.85"
    using b by (simp_all add: field_simps)
  with c eq show ?thesis by simp
qed

lemma draw_roundings:
  assumes "- 2.85 < hc" "hc < - 2.75" "2.75 < ac" "ac < (2.85::real)"
  shows "py_round (1500 + hc) = 1497" "py_round (1500 + ac) = 1503"
        "py_round_nd hc 1 = - 2.8" "py_round_nd ac 1 = 2.8"
proof -
  show "py_round (1500 + hc) = 1497" using assms by (intro py_round_eqI) simp_all
  show "py_round (1500 + ac) = 1503" using assms by (intro py_round_eqI) simp_all
  show "py_round_nd hc 1 = - 2.8"
    using py_round_nd_eqI [of "- 28" hc 1] assms by simp
  show "py_round_nd ac 1 = 2.8"
    using py_round_nd_eqI [of 28 ac 1] assms by simp
qed

text \<open>
  Claim C4, as stated: for every match input \<^verbatim>\<open>process_match\<close> commits both new ratings and
  returns. It fails when the home side, stored at 800, beats the away side, stored at 3000:
  the winner is 2200 below the loser, the multiplier divides by zero, and the call raises
  before anything is committed.
\<close>

theorem process_match_raises_counterexample:
  "process_match (ELOCalculator_default\<lparr>current_elo := [''A'' \<mapsto> 800, ''B'' \<mapsto> 3000]\<rparr>)
     ''A'' ''B'' 1 0 ''2024-05-19'' True = Inl ZeroDivisionError"
proof -
  let ?c = "ELOCalculator_default\<lparr>current_elo := [''A'' \<mapsto> 800, ''B'' \<mapsto> 3000]\<rparr>"
  have g: "get_current_elo ?c ''A'' = 800" "get_current_elo ?c ''B'' = 3000"
    by (simp_all add: get_current_elo_def)
  have "calculate_elo_change ?c 800 3000 1 0 True = Inl ZeroDivisionError"
    by (rule calculate_elo_change_raise)
       (simp_all add: ELOCalculator_default_def ELOCalculator_init_def)
  then show ?thesis
    unfolding process_match_def Let_def g by simp
qed

text \<open>
  Claim C4, amended: for every match input except a decided match, with the multiplier on,
  whose winner is stored exactly 2200 below the loser, \<^verbatim>\<open>process_match\<close> (called with
  \<^verbatim>\<open>update_history\<close> at its default, and the default rating at its default 1500) reads
  both current ratings, a team absent from the store being read as 1500, commits
  \<^verbatim>\<open>round(old + delta)\<close> for the home team and then for the away team, the rounded value
  being an integer nearest to the sum, appends one history entry per team dated with the
  match date, and returns the two new ratings and both deltas rounded to one decimal.
\<close>

theorem process_match_commits:
  assumes d: "default_elo self = 1500"
    and ok: "\<not> (use_mov self \<and> home_goals \<noteq> away_goals
                \<and> (if away_goals < home_goals
                    then get_current_elo self home_team - get_current_elo self away_team
                    else get_current_elo self away_team - get_current_elo self home_team)
                   = - 2200)"
  shows "\<exists>home_change away_change.
      get_current_elo self home_team
        = (case current_elo self home_team of None \<Rightarrow> 1500 | Some r \<Rightarrow> r)
    \<and> get_current_elo self away_team
        = (case current_elo self away_team of None \<Rightarrow> 1500 | Some r \<Rightarrow> r)
    \<and> calculate_elo_change self (real_of_int (get_current_elo self home_team))
          (real_of_int (get_current_elo self away_team)) home_goals away_goals True
        = Inr home_change
    \<and> calculate_elo_change self (real_of_int (get_current_elo self away_team))
          (real_of_int (get_current_elo self home_team)) away_goals home_goals False
        = Inr away_change
    \<and> process_match self home_team away_team home_goals away_goals match_date True
        = Inr (self\<lparr>current_elo := (current_elo self)
                  (home_team \<mapsto>
                     py_round (real_of_int (get_current_elo self home_team) + home_change),
                   away_team \<mapsto>
                     py_round (real_of_int (get_current_elo self away_team) + away_change)),
                 elo_history :=
                   append_history
                     (append_history (elo_history self) home_team
                        \<lparr>date = match_date,
                         elo = py_round (real_of_int (get_current_elo self home_team)
                                          + home_change)\<rparr>)
                     away_team
                     \<lparr>date = match_date,
                      elo = py_round (real_of_int (get_current_elo self away_team)
                                       + away_change)\<rparr>\<rparr>,
               (py_round (real_of_int (get_current_elo self home_team) + home_change),
                py_round (real_of_int (get_current_elo self away_team) + away_change),
                py_round_nd home_change 1, py_round_nd away_change 1))
    \<and> (\<forall>n. \<bar>real_of_int (py_round (real_of_int (get_current_elo self home_team)
                                      + home_change))
              - (real_of_int (get_current_elo self home_team) + home_change)\<bar>
            \<le> \<bar>real_of_int n - (real_of_int (get_current_elo self home_team) + home_change)\<bar>)
    \<and> (\<forall>n. \<bar>real_of_int (py_round (real_of_int (get_current_elo self away_team)
                                      + away_change))
              - (real_of_int (get_current_elo self away_team) + away_change)\<bar>
            \<le> \<bar>real_of_int n - (real_of_int (get_current_elo self away_team) + away_change)\<bar>)"
proof -
  from elo_changes_ok [OF ok] obtain hc ac where
    c: "calculate_elo_change self (real_of_int (get_current_elo self home_team))
          (real_of_int (get_current_elo self away_team)) home_goals away_goals True = Inr hc"
       "calculate_elo_change self (real_of_int (get_current_elo self away_team))
          (real_of_int (get_current_elo self home_team)) away_goals home_goals False = Inr ac"
    by blast
  show ?thesis
    using c process_match_result [OF c, of match_date True]
      get_current_elo_1500 [OF d] py_round_nearest
    by (intro exI [of _ hc] exI [of _ ac]) simp
qed

theorem process_match_commits_witness:
  "process_match ELOCalculator_default ''Arsenal'' ''Chelsea'' 0 0 ''2024-05-19'' True
     = Inr (ELOCalculator_default
              \<lparr>current_elo := [''Arsenal'' \<mapsto> 1497, ''Chelsea'' \<mapsto> 1503],
               elo_history := [''Arsenal'' \<mapsto> [\<lparr>date = ''2024-05-19'', elo = 1497\<rparr>],
                               ''Chelsea'' \<mapsto> [\<lparr>date = ''2024-05-19'', elo = 1503\<rparr>]]\<rparr>,
            (1497, 1503, - 2.8, 2.8))"
proof -
  let ?c = ELOCalculator_default
  have g: "get_current_elo ?c t = 1500" for t
    by (simp add: get_current_elo_def ELOCalculator_default_def ELOCalculator_init_def)
  have emp: "current_elo ?c = Map.empty" "elo_history ?c = Map.empty"
    by (simp_all add: ELOCalculator_default_def ELOCalculator_init_def)
  have d: "default_elo ?c = 1500"
    by (simp add: ELOCalculator_default_def ELOCalculator_init_def)
  from process_match_commits [where self = ?c and home_team = "''Arsenal''"
      and away_team = "''Chelsea''" and home_goals = 0 and away_goals = 0
      and match_date = "''2024-05-19''", OF d]
  obtain hc ac where
    c: "calculate_elo_change ?c 1500 1500 0 0 True = Inr hc"
       "calculate_elo_change ?c 1500 1500 0 0 False = Inr ac"
    and p: "process_match ?c ''Arsenal'' ''Chelsea'' 0 0 ''2024-05-19'' True
        = Inr (?c\<lparr>current_elo := (current_elo ?c)
                  (''Arsenal'' \<mapsto> py_round (1500 + hc), ''Chelsea'' \<mapsto> py_round (1500 + ac)),
                 elo_history :=
                   append_history
                     (append_history (elo_history ?c) ''Arsenal''
                        \<lparr>date = ''2024-05-19'', elo = py_round (1500 + hc)\<rparr>)
                     ''Chelsea'' \<lparr>date = ''2024-05-19'', elo = py_round (1500 + ac)\<rparr>\<rparr>,
               (py_round (1500 + hc), py_round (1500 + ac),
                py_round_nd hc 1, py_round_nd ac 1))"
    by (auto simp: g)
  from draw_change_home c(1) have hb: "- 2.85 < hc" "hc < - 2.75" by auto
  from draw_change_away c(2) have ab: "2.75 < ac" "ac < 2.85" by auto
  note r = draw_roundings [OF hb ab, unfolded One_nat_def]
  show ?thesis
    unfolding p by (simp add: r emp append_history_def)
qed

section \<open>The history after a match\<close>

lemma append_history_lookups:
  assumes "home_team \<noteq> away_team"
  shows "append_history (append_history h home_team eh) away_team ea home_team
           = Some ((case h home_team of None \<Rightarrow> [] | Some es \<Rightarrow> es) @ [eh])"
    and "append_history (append_history h home_team eh) away_team ea away_team
           = Some ((case h away_team of None \<Rightarrow> [] | Some es \<Rightarrow> es) @ [ea])"
  using assms by (simp_all add: append_history_def)

text \<open>
  Claim C9, as stated: after every call a history entry has been appended for both teams,
  and the rating in each appended entry is the team's committed rating. It fails in two
  ways: with \<^verbatim>\<open>update_history=False\<close> the ratings are committed and no entry is appended (the
  history stays empty); and when the same team is given as home and away, the first
  appended entry holds 1497 while the committed rating is 1503.
\<close>

theorem history_entry_counterexample:
  "process_match ELOCalculator_default ''Arsenal'' ''Chelsea'' 0 0 ''2024-05-19'' False
     = Inr (ELOCalculator_default
              \<lparr>current_elo := [''Arsenal'' \<mapsto> 1497, ''Chelsea'' \<mapsto> 1503]\<rparr>,
            (1497, 1503, - 2.8, 2.8))
   \<and> elo_history ELOCalculator_default = Map.empty
   \<and> process_match ELOCalculator_default ''Arsenal'' ''Arsenal'' 0 0 ''2024-05-19'' True
     = Inr (ELOCalculator_default
              \<lparr>current_elo := [''Arsenal'' \<mapsto> 1503],
               elo_history := [''Arsenal'' \<mapsto> [\<lparr>date = ''2024-05-19'', elo = 1497\<rparr>,
                                                  \<lparr>date = ''2024-05-19'', elo = 1503\<rparr>]]\<rparr>,
            (1497, 1503, - 2.8, 2.8))"
proof -
  let ?c = ELOCalculator_default
  have g: "get_current_elo ?c t = 1500" for t
    by (simp add: get_current_elo_def ELOCalculator_default_def ELOCalculator_init_def)
  have emp: "current_elo ?c = Map.empty" "elo_history ?c = Map.empty"
    by (simp_all add: ELOCalculator_default_def ELOCalculator_init_def)
  from draw_change_home obtain hc where
    hc: "calculate_elo_change ?c 1500 1500 0 0 True = Inr hc" "- 2.85 < hc" "hc < - 2.75"
    by blast
  from draw_change_away obtain ac where
    ac: "calculate_elo_change ?c 1500 1500 0 0 False = Inr ac" "2.75 < ac" "ac < 2.85"
    by blast
  note r = draw_roundings [OF hc(2,3) ac(2,3), unfolded One_nat_def]
  have h1: "calculate_elo_change ?c (real_of_int (get_current_elo ?c t))
              (real_of_int (get_current_elo ?c u)) 0 0 True = Inr hc" for t u
    by (simp add: g hc(1))
  have a1: "calculate_elo_change ?c (real_of_int (get_current_elo ?c t))
              (real_of_int (get_current_elo ?c u)) 0 0 False = Inr ac" for t u
    by (simp add: g ac(1))
  have p1: "process_match ?c ''Arsenal'' ''Chelsea'' 0 0 ''2024-05-19'' False
     = Inr (?c\<lparr>current_elo := [''Arsenal'' \<mapsto> 1497, ''Chelsea'' \<mapsto> 1503]\<rparr>,
            (1497, 1503, - 2.8, 2.8))"
    using process_match_result [OF h1 a1, of "''Arsenal''" "''Chelsea''" "''2024-05-19''" False]
    by (simp add: g r emp)
  have p2: "process_match ?c ''Arsenal'' ''Arsenal'' 0 0 ''2024-05-19'' True
     = Inr (?c\<lparr>current_elo := [''Arsenal'' \<mapsto> 1503],
               elo_history := [''Arsenal'' \<mapsto> [\<lparr>date = ''2024-05-19'', elo = 1497\<rparr>,
                                                  \<lparr>date = ''2024-05-19'', elo = 1503\<rparr>]]\<rparr>,
            (1497, 1503, - 2.8, 2.8))"
    using process_match_result [OF h1 a1, of "''Arsenal''" "''Arsenal''" "''2024-05-19''" True]
    by (simp add: g r emp append_history_def)
  from p1 p2 emp(2) show ?thesis by simp
qed

text \<open>
  Claim C9, amended: after every call of \<^verbatim>\<open>process_match\<close> with \<^verbatim>\<open>update_history\<close> true (the
  default) between two distinct teams that returns (it raises only for a decided match,
  with the multiplier on, whose winner is stored exactly 2200 below the loser), one entry
  dated with the match date has been appended to the history of each of the two teams,
  and the rating in each appended entry equals the team's committed current rating.
\<close>

theorem history_matches_rating:
  assumes ne: "home_team \<noteq> away_team"
    and ok: "\<not> (use_mov self \<and> home_goals \<noteq> away_goals
                \<and> (if away_goals < home_goals
                    then get_current_elo self home_team - get_current_elo self away_team
                    else get_current_elo self away_team - get_current_elo self home_team)
                   = - 2200)"
  shows "\<exists>s' new_home new_away home_change away_change.
      process_match self home_team away_team home_goals away_goals match_date True
        = Inr (s', (new_home, new_away, home_change, away_change))
    \<and> elo_history s' home_team
        = Some ((case elo_history self home_team of None \<Rightarrow> [] | Some es \<Rightarrow> es)
                 @ [\<lparr>date = match_date, elo = new_home\<rparr>])
    \<and> current_elo s' home_team = Some new_home
    \<and> elo_history s' away_team
        = Some ((case elo_history self away_team of None \<Rightarrow> [] | Some es \<Rightarrow> es)
                 @ [\<lparr>date = match_date, elo = new_away\<rparr>])
    \<and> current_elo s' away_team = Some new_away"
proof -
  from elo_changes_ok [OF ok] obtain hc ac where
    c: "calculate_elo_change self (real_of_int (get_current_elo self home_team))
          (real_of_int (get_current_elo self away_team)) home_goals away_goals True = Inr hc"
       "calculate_elo_change self (real_of_int (get_current_elo self away_team))
          (real_of_int (get_current_elo self home_team)) away_goals home_goals False = Inr ac"
    by blast
  show ?thesis
    using process_match_result [OF c, of match_date True] ne
    by (simp add: append_history_lookups)
qed

theorem history_matches_rating_witness:
  "\<exists>s' new_home new_away home_change away_change.
      process_match
        (ELOCalculator_default\<lparr>elo_history :=
           [''Arsenal'' \<mapsto> [\<lparr>date = ''2024-05-12'', elo = 1500\<rparr>]]\<rparr>)
        ''Arsenal'' ''Chelsea'' 2 1 ''2024-05-19'' True
        = Inr (s', (new_home, new_away, home_change, away_change))
    \<and> elo_history s' ''Arsenal''
        = Some [\<lparr>date = ''2024-05-12'', elo = 1500\<rparr>, \<lparr>date = ''2024-05-19'', elo = new_home\<rparr>]
    \<and> current_elo s' ''Arsenal'' = Some new_home
    \<and> elo_history s' ''Chelsea'' = Some [\<lparr>date = ''2024-05-19'', elo = new_away\<rparr>]
    \<and> current_elo s' ''Chelsea'' = Some new_away"
  using history_matches_rating
    [where self = "ELOCalculator_default\<lparr>elo_history :=
           [''Arsenal'' \<mapsto> [\<lparr>date = ''2024-05-12'', elo = 1500\<rparr>]]\<rparr>"
       and home_team = "''Arsenal''" and away_team = "''Chelsea''"
       and home_goals = 2 and away_goals = 1 and match_date = "''2024-05-19''"]
  by (simp add: get_current_elo_def ELOCalculator_default_def ELOCalculator_init_def)

end
